theory Spec2Isabelle
  imports Complex_Main "HOL-Library.Char_ord" "HOL-Library.List_Lexorder" "HOL-Library.Log_Nat"
begin

section \<open>The equipment parameter model of \<open>backend/api/ml_models.py\<close>\<close>

text \<open>
  A shallow embedding of the class \<open>EquipmentMLModel\<close>. The attributes of the object are a
  record that every method takes and returns; an exception is a value of \<open>error\<close>, returned
  together with the object as the exception leaves it. The fitted estimators of
  scikit-learn are not code of this repository: their types are the parameters
  \<open>'m\<close> (a regressor), \<open>'c\<close> (a classifier) and \<open>'s\<close> (a fitted \<open>StandardScaler\<close>), and
  what they compute is taken from a record of library functions.
\<close>

subsection \<open>Errors and numbers\<close>

datatype error =
    ValueError
  | NotFittedError
  | AttributeError
  | KeyError string
  | FileNotFoundError
  | IsADirectoryError
  | NotADirectoryError
  | FileExistsError

text \<open>\<open>sklearn.exceptions.NotFittedError\<close> is a subclass of \<open>ValueError\<close>, so
  \<open>except ValueError\<close> catches both.\<close>

fun except_ValueError :: "error \<Rightarrow> bool" where
  "except_ValueError ValueError = True"
| "except_ValueError NotFittedError = True"
| "except_ValueError _ = False"

text \<open>A Python \<open>float\<close> that is a score: a number, an infinity or \<open>nan\<close>. Every ordered
  comparison with \<open>nan\<close> is \<open>False\<close>.\<close>

datatype pyfloat = Fin rat | PosInf | NegInf | NaN

fun float_gt :: "pyfloat \<Rightarrow> pyfloat \<Rightarrow> bool" where
  "float_gt NaN _ = False"
| "float_gt _ NaN = False"
| "float_gt (Fin a) (Fin b) = (b < a)"
| "float_gt PosInf PosInf = False"
| "float_gt PosInf _ = True"
| "float_gt _ PosInf = False"
| "float_gt NegInf _ = False"
| "float_gt (Fin a) NegInf = True"

fun float_ge :: "pyfloat \<Rightarrow> pyfloat \<Rightarrow> bool" where
  "float_ge NaN _ = False"
| "float_ge _ NaN = False"
| "float_ge a b = (a = b \<or> float_gt a b)"

subsection \<open>The object\<close>

record target_metrics =
  r2_score :: pyfloat
  mse :: pyfloat
  mae :: pyfloat
  rmse :: pyfloat

record regression_metrics =
  flowrate :: target_metrics
  pressure :: target_metrics
  temperature :: target_metrics
  training_samples :: nat
  test_samples :: nat
  total_samples :: nat
  equipment_types :: "string list"

record classification_metrics =
  accuracy :: pyfloat
  training_samples_c :: nat
  test_samples_c :: nat
  equipment_types_c :: "string list"
  confusion_matrix :: "nat list list"

text \<open>An entry of the dictionary \<open>training_history\<close>: the empty dictionary \<open>{}\<close> that
  \<open>__init__\<close> stores, or the metrics of a training run.\<close>

datatype metrics_dict =
    NoMetrics
  | RegressionMetrics regression_metrics
  | ClassificationMetrics classification_metrics

text \<open>
  The attributes set by \<open>__init__\<close>. A model attribute is \<open>None\<close> until a fit assigns it.
  \<open>label_encoder\<close> is the attribute \<open>classes_\<close> of the \<open>LabelEncoder\<close>, \<open>None\<close> while the
  encoder is not fitted; a scaler is \<open>None\<close> while it is the unfitted \<open>StandardScaler()\<close>.
\<close>

record ('m, 'c, 's) EquipmentMLModel =
  model_flowrate :: "'m option"
  model_pressure :: "'m option"
  model_temperature :: "'m option"
  classifier_model :: "'c option"
  label_encoder :: "string list option"
  scaler_regression :: "'s option"
  scaler_classification :: "'s option"
  feature_names :: "string list"
  is_trained :: bool
  training_history :: "string \<rightharpoonup> metrics_dict"

definition init :: "('m, 'c, 's) EquipmentMLModel" where
  "init = \<lparr> model_flowrate = None, model_pressure = None, model_temperature = None,
            classifier_model = None, label_encoder = None,
            scaler_regression = None, scaler_classification = None,
            feature_names = [], is_trained = False,
            training_history = [''regression'' \<mapsto> NoMetrics, ''classification'' \<mapsto> NoMetrics] \<rparr>"

subsection \<open>Persistence: \<open>save_model\<close> and \<open>load_model\<close>\<close>

text \<open>
  The dictionary \<open>model_data\<close> that is pickled. A key is absent (\<open>None\<close>) or holds a value
  of the type \<open>save_model\<close> stores under it; a file written by an older version of
  \<open>save_model\<close> lacks the keys that version did not write.
\<close>

record ('m, 'c, 's) model_data =
  k_model_flowrate :: "'m option option"
  k_model_pressure :: "'m option option"
  k_model_temperature :: "'m option option"
  k_classifier_model :: "'c option option"
  k_scaler_regression :: "'s option option"
  k_scaler_classification :: "'s option option"
  k_label_encoder :: "string list option option"
  k_feature_names :: "string list option"
  k_training_history :: "(string \<rightharpoonup> metrics_dict) option"
  k_is_trained :: "bool option"

text \<open>
  The file system: a path is its list of components, \<open>dirs\<close> are the directories that exist
  and \<open>files\<close> maps the path of a model file to the dictionary pickled in it.
\<close>

type_synonym path = "string list"

record ('m, 'c, 's) filesystem =
  dirs :: "path set"
  files :: "path \<rightharpoonup> ('m, 'c, 's) model_data"

definition path_exists :: "('m, 'c, 's) filesystem \<Rightarrow> path \<Rightarrow> bool" where
  "path_exists fs p = (p \<in> dirs fs \<or> files fs p \<noteq> None)"

text \<open>The proper ancestors of a path, from the root down to its parent.\<close>

definition ancestors_of :: "path \<Rightarrow> path list" where
  "ancestors_of p = map (\<lambda>n. take n p) [0..<length p]"

text \<open>\<open>open(filepath, 'wb')\<close> followed by \<open>pickle.dump\<close>: the parent directory must exist
  and the path must not be a directory. With the parent missing the error is
  \<open>NotADirectoryError\<close> when a component of the parent path is a regular file and
  \<open>FileNotFoundError\<close> otherwise; nothing is written.\<close>

definition open_wb_dump ::
  "('m, 'c, 's) filesystem \<Rightarrow> path \<Rightarrow> ('m, 'c, 's) model_data \<Rightarrow> (error + unit) \<times> ('m, 'c, 's) filesystem" where
  "open_wb_dump fs p d =
     (if p \<in> dirs fs then (Inl IsADirectoryError, fs)
      else if p \<noteq> [] \<and> butlast p \<in> dirs fs then (Inr (), fs\<lparr>files := (files fs)(p \<mapsto> d)\<rparr>)
      else if \<exists>q \<in> set (ancestors_of p). files fs q \<noteq> None then (Inl NotADirectoryError, fs)
      else (Inl FileNotFoundError, fs))"

definition save_model ::
  "('m, 'c, 's) EquipmentMLModel \<Rightarrow> ('m, 'c, 's) filesystem \<Rightarrow> path \<Rightarrow> (error + unit) \<times> ('m, 'c, 's) filesystem" where
  "save_model self fs filepath =
     (if \<not> is_trained self then (Inl ValueError, fs)
      else
        let model_data = \<lparr>
              k_model_flowrate = Some (model_flowrate self),
              k_model_pressure = Some (model_pressure self),
              k_model_temperature = Some (model_temperature self),
              k_classifier_model = Some (classifier_model self),
              k_scaler_regression = Some (scaler_regression self),
              k_scaler_classification = Some (scaler_classification self),
              k_label_encoder = Some (label_encoder self),
              k_feature_names = Some (feature_names self),
              k_training_history = Some (training_history self),
              k_is_trained = Some (is_trained self) \<rparr>
        in open_wb_dump fs filepath model_data)"

definition prefixes_of :: "path \<Rightarrow> path list" where
  "prefixes_of p = map (\<lambda>n. take n p) [0..<Suc (length p)]"

text \<open>\<open>os.makedirs(model_dir, exist_ok=True)\<close>: every missing ancestor is created. An
  ancestor that is a regular file makes \<open>mkdir\<close> fail with \<open>NotADirectoryError\<close>; the
  path itself being a regular file makes it fail with \<open>FileExistsError\<close>, which
  \<open>exist_ok\<close> forgives for a directory only.\<close>

definition makedirs_exist_ok ::
  "('m, 'c, 's) filesystem \<Rightarrow> path \<Rightarrow> (error + unit) \<times> ('m, 'c, 's) filesystem" where
  "makedirs_exist_ok fs p =
     (if \<exists>q \<in> set (ancestors_of p). files fs q \<noteq> None then (Inl NotADirectoryError, fs)
      else if files fs p \<noteq> None then (Inl FileExistsError, fs)
      else (Inr (), fs\<lparr>dirs := dirs fs \<union> set (prefixes_of p)\<rparr>))"


text \<open>
  \<open>load_model\<close> assigns the attributes one after the other: a subscript \<open>model_data[k]\<close>
  raises \<open>KeyError\<close> when the key is absent and leaves the attributes assigned so far,
  \<open>model_data.get(k, default)\<close> never raises.
\<close>

definition load_model ::
  "('m, 'c, 's) EquipmentMLModel \<Rightarrow> ('m, 'c, 's) filesystem \<Rightarrow> path \<Rightarrow> (error + unit) \<times> ('m, 'c, 's) EquipmentMLModel" where
  "load_model self fs filepath =
     (if \<not> path_exists fs filepath then (Inl FileNotFoundError, self)
      else case files fs filepath of
        None \<Rightarrow> (Inl IsADirectoryError, self)
      | Some model_data \<Rightarrow>
     (case k_model_flowrate model_data of
        None \<Rightarrow> (Inl (KeyError ''model_flowrate''), self)
      | Some mf \<Rightarrow> let self = self\<lparr>model_flowrate := mf\<rparr> in
     (case k_model_pressure model_data of
        None \<Rightarrow> (Inl (KeyError ''model_pressure''), self)
      | Some mp \<Rightarrow> let self = self\<lparr>model_pressure := mp\<rparr> in
     (case k_model_temperature model_data of
        None \<Rightarrow> (Inl (KeyError ''model_temperature''), self)
      | Some mt \<Rightarrow>
        let self = self\<lparr>model_temperature := mt\<rparr>;
            self = self\<lparr>classifier_model :=
                     (case k_classifier_model model_data of None \<Rightarrow> None | Some c \<Rightarrow> c)\<rparr>;
            self = self\<lparr>scaler_regression :=
                     (case k_scaler_regression model_data of None \<Rightarrow> None | Some s \<Rightarrow> s)\<rparr>;
            self = self\<lparr>scaler_classification :=
                     (case k_scaler_classification model_data of None \<Rightarrow> None | Some s \<Rightarrow> s)\<rparr>
        in
     (case k_label_encoder model_data of
        None \<Rightarrow> (Inl (KeyError ''label_encoder''), self)
      | Some le \<Rightarrow> let self = self\<lparr>label_encoder := le\<rparr> in
     (case k_feature_names model_data of
        None \<Rightarrow> (Inl (KeyError ''feature_names''), self)
      | Some fn \<Rightarrow>
        let self = self\<lparr>feature_names := fn\<rparr>;
            self = self\<lparr>training_history :=
                     (case k_training_history model_data of None \<Rightarrow> Map.empty | Some h \<Rightarrow> h)\<rparr>
        in
     (case k_is_trained model_data of
        None \<Rightarrow> (Inl (KeyError ''is_trained''), self)
      | Some t \<Rightarrow> (Inr (), self\<lparr>is_trained := t\<rparr>))))))))"

text \<open>
  The callers (\<open>train_model\<close> in \<open>views.py\<close>, \<open>retrain_ml.py\<close>, \<open>update_ml_metrics.py\<close>)
  create the directory \<open>MEDIA_ROOT/ml_models\<close> and then save to
  \<open>model_user_<id>.pkl\<close> in it.
\<close>

fun str_of_nat :: "nat \<Rightarrow> string" where
  "str_of_nat n =
     (if n < 10 then [char_of (48 + n)]
      else str_of_nat (n div 10) @ [char_of (48 + n mod 10)])"

declare str_of_nat.simps [simp del]

definition save_user_model ::
  "('m, 'c, 's) EquipmentMLModel \<Rightarrow> ('m, 'c, 's) filesystem \<Rightarrow> path \<Rightarrow> nat \<Rightarrow> (error + unit) \<times> ('m, 'c, 's) filesystem" where
  "save_user_model ml_model fs MEDIA_ROOT user_id =
     (let model_dir = MEDIA_ROOT @ [''ml_models''] in
      case makedirs_exist_ok fs model_dir of
        (Inl e, fs') \<Rightarrow> (Inl e, fs')
      | (Inr _, fs') \<Rightarrow>
          save_model ml_model fs' (model_dir @ [''model_user_'' @ str_of_nat user_id @ ''.pkl'']))"


subsection \<open>The data frame and \<open>clean_data\<close>\<close>

text \<open>
  A row of the data frame. A numeric cell is a number or missing (\<open>None\<close>, the \<open>NaN\<close> of
  pandas). Numbers are rationals and the arithmetic on them is exact: the rounding of
  binary floating point is not part of the model.
\<close>

record row =
  Equipment_Name :: string
  Type :: string
  Flowrate :: "rat option"
  Pressure :: "rat option"
  Temperature :: "rat option"

type_synonym dataframe = "row list"

text \<open>\<open>Series.median()\<close> skips the missing cells; the median of no value is \<open>NaN\<close>.\<close>

definition median :: "rat list \<Rightarrow> rat option" where
  "median xs =
     (let s = sort xs; n = length s
      in if n = 0 then None
         else if odd n then Some (s ! (n div 2))
         else Some ((s ! (n div 2 - 1) + s ! (n div 2)) / 2))"

definition present :: "rat option list \<Rightarrow> rat list" where
  "present col = concat (map (\<lambda>v. case v of None \<Rightarrow> [] | Some x \<Rightarrow> [x]) col)"

text \<open>\<open>if df[col].isnull().any(): df[col].fillna(df[col].median(), inplace=True)\<close>, for the
  column read by \<open>get\<close> and written by \<open>put\<close>. Filling with a \<open>NaN\<close> median changes
  nothing.\<close>

definition fillna_median ::
  "(row \<Rightarrow> rat option) \<Rightarrow> (rat option \<Rightarrow> row \<Rightarrow> row) \<Rightarrow> dataframe \<Rightarrow> dataframe" where
  "fillna_median get put df =
     (if None \<in> set (map get df)
      then let m = median (present (map get df))
           in map (\<lambda>r. if get r = None then put m r else r) df
      else df)"

definition mean :: "rat list \<Rightarrow> rat" where
  "mean xs = sum_list xs / of_nat (length xs)"

text \<open>The square of \<open>a.std(ddof=0)\<close>.\<close>

definition variance :: "rat list \<Rightarrow> rat" where
  "variance xs = sum_list (map (\<lambda>x. (x - mean xs)\<^sup>2) xs) / of_nat (length xs)"

text \<open>
  \<open>np.abs(stats.zscore(col)) < 3\<close> at the cell \<open>v\<close> of the column \<open>col\<close>. The z-score is
  \<open>(v - mean) / std\<close>. A missing cell anywhere in the column makes the mean, and so every
  z-score, \<open>NaN\<close>; a column whose values are all equal has \<open>std = 0\<close> and the z-score
  \<open>0 / 0 = NaN\<close>; and \<open>NaN < 3\<close> is \<open>False\<close>. Otherwise \<open>|v - mean| / std < 3\<close> is decided
  without the square root, as \<open>(v - mean)\<^sup>2 < 9 * std\<^sup>2\<close>.
\<close>

definition abs_zscore_lt_3 :: "rat option list \<Rightarrow> rat option \<Rightarrow> bool" where
  "abs_zscore_lt_3 col v =
     (case those col of
        None \<Rightarrow> False
      | Some xs \<Rightarrow>
         (case v of
            None \<Rightarrow> False
          | Some x \<Rightarrow> variance xs \<noteq> 0 \<and> (x - mean xs)\<^sup>2 < 9 * variance xs))"


text \<open>\<open>df[(z_scores < 3).all(axis=1)]\<close>: the rows whose three z-scores are all below 3,
  in their order.\<close>

definition zscore_filter :: "dataframe \<Rightarrow> dataframe" where
  "zscore_filter df =
     filter (\<lambda>r. abs_zscore_lt_3 (map Flowrate df) (Flowrate r)
               \<and> abs_zscore_lt_3 (map Pressure df) (Pressure r)
               \<and> abs_zscore_lt_3 (map Temperature df) (Temperature r)) df"

definition fill_numeric_cols :: "dataframe \<Rightarrow> dataframe" where
  "fill_numeric_cols df =
     fillna_median Temperature (\<lambda>v r. r\<lparr>Temperature := v\<rparr>)
       (fillna_median Pressure (\<lambda>v r. r\<lparr>Pressure := v\<rparr>)
          (fillna_median Flowrate (\<lambda>v r. r\<lparr>Flowrate := v\<rparr>) df))"

definition clean_data :: "dataframe \<Rightarrow> dataframe" where
  "clean_data df = (let df_clean = fill_numeric_cols df in zscore_filter df_clean)"


subsection \<open>\<open>LabelEncoder\<close>\<close>

fun index_of :: "'a list \<Rightarrow> 'a \<Rightarrow> nat option" where
  "index_of [] y = None"
| "index_of (x # xs) y = (if x = y then Some 0 else map_option Suc (index_of xs y))"

text \<open>\<open>fit\<close> stores the sorted distinct labels in \<open>classes_\<close>.\<close>

definition encoder_fit :: "string list \<Rightarrow> string list" where
  "encoder_fit labels = sort (remdups labels)"

text \<open>\<open>transform([label])[0]\<close>: \<open>NotFittedError\<close> before any fit, \<open>ValueError\<close> for a label
  that is not in \<open>classes_\<close>.\<close>

definition encoder_transform :: "string list option \<Rightarrow> string \<Rightarrow> error + nat" where
  "encoder_transform classes label =
     (case classes of
        None \<Rightarrow> Inl NotFittedError
      | Some cs \<Rightarrow> (case index_of cs label of None \<Rightarrow> Inl ValueError | Some i \<Rightarrow> Inr i))"

text \<open>\<open>fit_transform\<close>: the classes and the code of every label, its position in the
  classes (every label is among them, so the lookup finds it).\<close>

definition encoder_fit_transform :: "string list \<Rightarrow> string list \<times> nat list" where
  "encoder_fit_transform labels =
     (let cs = encoder_fit labels
      in (cs, map (\<lambda>l. case index_of cs l of None \<Rightarrow> 0 | Some i \<Rightarrow> i) labels))"


subsection \<open>\<open>train_test_split\<close>\<close>

text \<open>
  \<open>test_size * n_samples\<close> is a product of doubles. The double \<open>0.2\<close> is
  \<open>3602879701896397 / 2^54\<close>; the exact product with the integer \<open>n\<close> (below \<open>2^53\<close>) has
  the numerator \<open>n * 3602879701896397\<close>, which is rounded to 53 significant bits, ties to
  even. \<open>floorlog 2 k\<close> is the number of bits of \<open>k\<close>.
\<close>

definition round_to_53_bits :: "nat \<Rightarrow> nat" where
  "round_to_53_bits k =
     (let l = floorlog 2 k
      in if l \<le> 53 then k
         else let s = l - 53; q = k div 2 ^ s; r = k mod 2 ^ s; half = 2 ^ (s - 1)
              in (if r > half \<or> (r = half \<and> odd q) then q + 1 else q) * 2 ^ s)"

text \<open>\<open>n_test = ceil(test_size * n_samples)\<close> for \<open>test_size = 0.2\<close>.\<close>

definition n_test_of :: "nat \<Rightarrow> nat" where
  "n_test_of n = (round_to_53_bits (n * 3602879701896397) + (2 ^ 54 - 1)) div 2 ^ 54"

text \<open>\<open>_validate_shuffle_split\<close> of scikit-learn with \<open>train_size=None\<close>: the training set
  is the rest, and an empty training set is a \<open>ValueError\<close>.\<close>

definition validate_shuffle_split :: "nat \<Rightarrow> error + nat \<times> nat" where
  "validate_shuffle_split n_samples =
     (let n_test = n_test_of n_samples; n_train = n_samples - n_test
      in if n_train = 0 then Inl ValueError else Inr (n_train, n_test))"

text \<open>
  What the code takes from scikit-learn, as functions. \<open>permutation n\<close> is the shuffle of
  \<open>0..n-1\<close> that \<open>random_state=42\<close> draws, \<open>stratified_indices y n_train n_test\<close> the
  training and test indices of the stratified shuffle. A scaler and an estimator work
  row by row: \<open>'x\<close> is a scaled row. A target or a feature is a cell of the data frame.
\<close>

datatype candidate = Random_Forest | Gradient_Boosting | Linear_Regression

record ('m, 'c, 's, 'x) sklearn =
  permutation :: "nat \<Rightarrow> nat list"
  stratified_indices :: "nat list \<Rightarrow> nat \<Rightarrow> nat \<Rightarrow> nat list \<times> nat list"
  scaler_fit :: "rat option list list \<Rightarrow> 's"
  scaler_transform :: "'s \<Rightarrow> rat option list \<Rightarrow> 'x"
  regressor_fit :: "candidate \<Rightarrow> 'x list \<Rightarrow> rat option list \<Rightarrow> 'm"
  regressor_predict :: "'m \<Rightarrow> 'x \<Rightarrow> rat"
  r2 :: "rat option list \<Rightarrow> rat list \<Rightarrow> pyfloat"
  mean_squared_error :: "rat option list \<Rightarrow> rat list \<Rightarrow> pyfloat"
  mean_absolute_error :: "rat option list \<Rightarrow> rat list \<Rightarrow> pyfloat"
  np_sqrt :: "pyfloat \<Rightarrow> pyfloat"
  classifier_fit :: "'x list \<Rightarrow> nat list \<Rightarrow> 'c"
  classifier_predict :: "'c \<Rightarrow> 'x \<Rightarrow> nat"
  accuracy_score :: "nat list \<Rightarrow> nat list \<Rightarrow> pyfloat"
  sk_confusion_matrix :: "nat list \<Rightarrow> nat list \<Rightarrow> nat list list"

text \<open>The contract of the two index functions: the shuffle is a permutation of the
  indices, and the stratified shuffle returns as many indices of the data as asked for.\<close>

definition sklearn_ok :: "('m, 'c, 's, 'x) sklearn \<Rightarrow> bool" where
  "sklearn_ok L =
     ((\<forall>n. length (permutation L n) = n \<and> set (permutation L n) = {..<n}) \<and>
      (\<forall>y n_train n_test.
          length (fst (stratified_indices L y n_train n_test)) = n_train \<and>
          length (snd (stratified_indices L y n_train n_test)) = n_test))"

text \<open>The number of samples of every class of \<open>y\<close> (the \<open>counts\<close> of
  \<open>np.unique(y, return_counts=True)\<close>).\<close>

definition class_counts :: "'a list \<Rightarrow> nat list" where
  "class_counts y = map (count_list y) (remdups y)"

text \<open>
  The indices \<open>(train, test)\<close> of \<open>train_test_split(..., test_size=0.2, random_state=42)\<close>.
  Without \<open>stratify\<close> the first \<open>n_test\<close> indices of the shuffle are the test set and the
  next \<open>n_train\<close> the training set. With \<open>stratify=y\<close> the stratified shuffle refuses a
  class of fewer than 2 samples, and a training or test set smaller than the number of
  classes.
\<close>

definition split_indices ::
  "('m, 'c, 's, 'x) sklearn \<Rightarrow> nat \<Rightarrow> nat list option \<Rightarrow> error + nat list \<times> nat list" where
  "split_indices L n_samples stratify =
     (case validate_shuffle_split n_samples of
        Inl e \<Rightarrow> Inl e
      | Inr (n_train, n_test) \<Rightarrow>
         (case stratify of
            None \<Rightarrow>
              let p = permutation L n_samples
              in Inr (take n_train (drop n_test p), take n_test p)
          | Some y \<Rightarrow>
              let n_classes = length (remdups y)
              in if \<exists>c \<in> set (class_counts y). c < 2 then Inl ValueError
                 else if n_train < n_classes then Inl ValueError
                 else if n_test < n_classes then Inl ValueError
                 else Inr (stratified_indices L y n_train n_test)))"

definition rows_at :: "'a list \<Rightarrow> nat list \<Rightarrow> 'a list" where
  "rows_at xs idx = map (\<lambda>i. xs ! i) idx"

definition train_test_split ::
  "('m, 'c, 's, 'x) sklearn \<Rightarrow> 'a list \<Rightarrow> 'b list \<Rightarrow> nat list option \<Rightarrow>
     error + 'a list \<times> 'a list \<times> 'b list \<times> 'b list" where
  "train_test_split L X y stratify =
     (case split_indices L (length X) stratify of
        Inl e \<Rightarrow> Inl e
      | Inr (train, test) \<Rightarrow>
          Inr (rows_at X train, rows_at X test, rows_at y train, rows_at y test))"


subsection \<open>Training\<close>

type_synonym features = "rat option list"

definition prepare_data ::
  "('m, 'c, 's) EquipmentMLModel \<Rightarrow> dataframe \<Rightarrow>
     ('m, 'c, 's) EquipmentMLModel \<times> features list \<times> rat option list \<times> rat option list \<times> rat option list" where
  "prepare_data self df =
     (let data = clean_data df;
          (classes, Type_Encoded) = encoder_fit_transform (map Type data);
          self = self\<lparr>label_encoder := Some classes\<rparr>;
          X = map (\<lambda>c. [Some (of_nat c)]) Type_Encoded;
          y_flowrate = map Flowrate data;
          y_pressure = map Pressure data;
          y_temperature = map Temperature data;
          self = self\<lparr>feature_names := [''Type_Encoded'']\<rparr>
      in (self, X, y_flowrate, y_pressure, y_temperature))"

text \<open>\<open>r2_score(y_test, pred)\<close>: scikit-learn returns \<open>nan\<close> (with a warning) when there are
  fewer than two samples, whatever the predictions are; otherwise the score is the
  library's.\<close>

definition sk_r2_score ::
  "('m, 'c, 's, 'x) sklearn \<Rightarrow> rat option list \<Rightarrow> rat list \<Rightarrow> pyfloat" where
  "sk_r2_score L y_true y_pred = (if length y_pred < 2 then NaN else r2 L y_true y_pred)"

definition models_to_test :: "candidate list" where
  "models_to_test = [Random_Forest, Gradient_Boosting, Linear_Regression]"

text \<open>
  The loop \<open>for name, model in models_to_test.items()\<close> over the candidates that are left:
  each is fitted on the training split and scored on the test split, and it replaces the
  retained model only when its score is strictly greater than the best so far. The state
  of the loop is the best score and the model attribute. The loops for pressure and
  temperature fit a fresh copy of each candidate, which is the same fit here.
\<close>

fun selection_loop ::
  "('m, 'c, 's, 'x) sklearn \<Rightarrow> 'x list \<Rightarrow> rat option list \<Rightarrow> 'x list \<Rightarrow> rat option list \<Rightarrow>
     candidate list \<Rightarrow> pyfloat \<times> 'm option \<Rightarrow> pyfloat \<times> 'm option" where
  "selection_loop L X_train y_train X_test y_test [] (best_score, retained) = (best_score, retained)"
| "selection_loop L X_train y_train X_test y_test (name # rest) (best_score, retained) =
     (let model = regressor_fit L name X_train y_train;
          pred = map (regressor_predict L model) X_test;
          r2 = sk_r2_score L y_test pred
      in if float_gt r2 best_score
         then selection_loop L X_train y_train X_test y_test rest (r2, Some model)
         else selection_loop L X_train y_train X_test y_test rest (best_score, retained))"

definition evaluate ::
  "('m, 'c, 's, 'x) sklearn \<Rightarrow> rat option list \<Rightarrow> rat list \<Rightarrow> target_metrics" where
  "evaluate L y_test pred =
     \<lparr> r2_score = sk_r2_score L y_test pred,
       mse = mean_squared_error L y_test pred,
       mae = mean_absolute_error L y_test pred,
       rmse = np_sqrt L (mean_squared_error L y_test pred) \<rparr>"

definition train_regression_models ::
  "('m, 'c, 's, 'x) sklearn \<Rightarrow> ('m, 'c, 's) EquipmentMLModel \<Rightarrow> dataframe \<Rightarrow>
     (error + regression_metrics) \<times> ('m, 'c, 's) EquipmentMLModel" where
  "train_regression_models L self df =
     (case prepare_data self df of (self, X, y_flowrate, y_pressure, y_temperature) \<Rightarrow>
      case train_test_split L X y_flowrate None of
        Inl e \<Rightarrow> (Inl e, self)
      | Inr (X_train, X_test, y_flow_train, y_flow_test) \<Rightarrow>
      case train_test_split L X y_pressure None of
        Inl e \<Rightarrow> (Inl e, self)
      | Inr (_, _, y_pres_train, y_pres_test) \<Rightarrow>
      case train_test_split L X y_temperature None of
        Inl e \<Rightarrow> (Inl e, self)
      | Inr (_, _, y_temp_train, y_temp_test) \<Rightarrow>
      let scaler = scaler_fit L X_train;
          self = self\<lparr>scaler_regression := Some scaler\<rparr>;
          X_train_scaled = map (scaler_transform L scaler) X_train;
          X_test_scaled = map (scaler_transform L scaler) X_test;
          (best_flow_score, m) =
             selection_loop L X_train_scaled y_flow_train X_test_scaled y_flow_test
               models_to_test (NegInf, model_flowrate self);
          self = self\<lparr>model_flowrate := m\<rparr>;
          (best_pres_score, m) =
             selection_loop L X_train_scaled y_pres_train X_test_scaled y_pres_test
               models_to_test (NegInf, model_pressure self);
          self = self\<lparr>model_pressure := m\<rparr>;
          (best_temp_score, m) =
             selection_loop L X_train_scaled y_temp_train X_test_scaled y_temp_test
               models_to_test (NegInf, model_temperature self);
          self = self\<lparr>model_temperature := m\<rparr>
      in
      case model_flowrate self of
        None \<Rightarrow> (Inl AttributeError, self)
      | Some mf \<Rightarrow>
      case model_pressure self of
        None \<Rightarrow> (Inl AttributeError, self)
      | Some mp \<Rightarrow>
      case model_temperature self of
        None \<Rightarrow> (Inl AttributeError, self)
      | Some mt \<Rightarrow>
      let flow_pred = map (regressor_predict L mf) X_test_scaled;
          pres_pred = map (regressor_predict L mp) X_test_scaled;
          temp_pred = map (regressor_predict L mt) X_test_scaled;
          metrics = \<lparr>
            flowrate = evaluate L y_flow_test flow_pred,
            pressure = evaluate L y_pres_test pres_pred,
            temperature = evaluate L y_temp_test temp_pred,
            training_samples = length X_train,
            test_samples = length X_test,
            total_samples = length X,
            equipment_types = (case label_encoder self of None \<Rightarrow> [] | Some cs \<Rightarrow> cs) \<rparr>
      in (Inr metrics,
          self\<lparr>training_history := (training_history self)(''regression'' \<mapsto> RegressionMetrics metrics)\<rparr>))"

text \<open>\<open>can_stratify = all(count >= 2 for count in counts)\<close>.\<close>

definition can_stratify :: "nat list \<Rightarrow> bool" where
  "can_stratify y = (\<forall>count \<in> set (class_counts y). count \<ge> 2)"

definition classification_split ::
  "('m, 'c, 's, 'x) sklearn \<Rightarrow> features list \<Rightarrow> nat list \<Rightarrow>
     error + features list \<times> features list \<times> nat list \<times> nat list" where
  "classification_split L X y =
     (if can_stratify y then train_test_split L X y (Some y)
      else train_test_split L X y None)"

definition train_classification_model ::
  "('m, 'c, 's, 'x) sklearn \<Rightarrow> ('m, 'c, 's) EquipmentMLModel \<Rightarrow> dataframe \<Rightarrow>
     (error + classification_metrics) \<times> ('m, 'c, 's) EquipmentMLModel" where
  "train_classification_model L self df =
     (let data = clean_data df;
          X = map (\<lambda>r. [Flowrate r, Pressure r, Temperature r]) data;
          (classes, y) = encoder_fit_transform (map Type data);
          self = self\<lparr>label_encoder := Some classes\<rparr>
      in
      case classification_split L X y of
        Inl e \<Rightarrow> (Inl e, self)
      | Inr (X_train, X_test, y_train, y_test) \<Rightarrow>
      let scaler = scaler_fit L X_train;
          self = self\<lparr>scaler_classification := Some scaler\<rparr>;
          X_train_scaled = map (scaler_transform L scaler) X_train;
          X_test_scaled = map (scaler_transform L scaler) X_test;
          clf = classifier_fit L X_train_scaled y_train;
          self = self\<lparr>classifier_model := Some clf\<rparr>;
          y_pred = map (classifier_predict L clf) X_test_scaled;
          classification_metrics = \<lparr>
            accuracy = accuracy_score L y_test y_pred,
            training_samples_c = length X_train,
            test_samples_c = length X_test,
            equipment_types_c = classes,
            confusion_matrix = sk_confusion_matrix L y_test y_pred \<rparr>
      in (Inr classification_metrics,
          self\<lparr>training_history :=
                 (training_history self)(''classification'' \<mapsto> ClassificationMetrics classification_metrics)\<rparr>))"

definition train ::
  "('m, 'c, 's, 'x) sklearn \<Rightarrow> ('m, 'c, 's) EquipmentMLModel \<Rightarrow> dataframe \<Rightarrow>
     (error + regression_metrics \<times> classification_metrics) \<times> ('m, 'c, 's) EquipmentMLModel" where
  "train L self df =
     (case train_regression_models L self df of
        (Inl e, self) \<Rightarrow> (Inl e, self)
      | (Inr regression_metrics, self) \<Rightarrow>
     (case train_classification_model L self df of
        (Inl e, self) \<Rightarrow> (Inl e, self)
      | (Inr classification_metrics, self) \<Rightarrow>
          (Inr (regression_metrics, classification_metrics), self\<lparr>is_trained := True\<rparr>)))"

subsection \<open>\<open>predict\<close>\<close>

text \<open>\<open>round(x, 2)\<close>: the nearest multiple of \<open>0.01\<close>, a tie going to the even one.\<close>

definition round2 :: "rat \<Rightarrow> rat" where
  "round2 x =
     (let s = x * 100; f = \<lfloor>s\<rfloor>; d = s - of_int f
      in of_int (if d < 1 / 2 then f else if d > 1 / 2 then f + 1
                 else if even f then f else f + 1) / 100)"

record prediction =
  p_equipment_type :: string
  predicted_flowrate :: rat
  predicted_pressure :: rat
  predicted_temperature :: rat

definition predict ::
  "('m, 'c, 's, 'x) sklearn \<Rightarrow> ('m, 'c, 's) EquipmentMLModel \<Rightarrow> string \<Rightarrow> error + prediction" where
  "predict L self equipment_type =
     (if \<not> is_trained self then Inl ValueError
      else
        case (case encoder_transform (label_encoder self) equipment_type of
                Inr i \<Rightarrow> Inr i
              | Inl e \<Rightarrow> if except_ValueError e then Inr 0 else Inl e) of
          Inl e \<Rightarrow> Inl e
        | Inr type_encoded \<Rightarrow>
        let X_pred = [Some (of_nat type_encoded)] in
        case scaler_regression self of
          None \<Rightarrow> Inl NotFittedError
        | Some scaler \<Rightarrow>
        let X_pred_scaled = scaler_transform L scaler X_pred in
        case model_flowrate self of
          None \<Rightarrow> Inl AttributeError
        | Some mf \<Rightarrow>
        let flowrate = regressor_predict L mf X_pred_scaled in
        case model_pressure self of
          None \<Rightarrow> Inl AttributeError
        | Some mp \<Rightarrow>
        let pressure = regressor_predict L mp X_pred_scaled in
        case model_temperature self of
          None \<Rightarrow> Inl AttributeError
        | Some mt \<Rightarrow>
        let temperature = regressor_predict L mt X_pred_scaled in
        Inr \<lparr> p_equipment_type = equipment_type,
              predicted_flowrate = round2 flowrate,
              predicted_pressure = round2 pressure,
              predicted_temperature = round2 temperature \<rparr>)"


subsection \<open>Example values\<close>

text \<open>The dictionary that \<open>save_model\<close> builds from the attributes: all ten keys.\<close>

definition bundle_of :: "('m, 'c, 's) EquipmentMLModel \<Rightarrow> ('m, 'c, 's) model_data" where
  "bundle_of self = \<lparr>
      k_model_flowrate = Some (model_flowrate self),
      k_model_pressure = Some (model_pressure self),
      k_model_temperature = Some (model_temperature self),
      k_classifier_model = Some (classifier_model self),
      k_scaler_regression = Some (scaler_regression self),
      k_scaler_classification = Some (scaler_classification self),
      k_label_encoder = Some (label_encoder self),
      k_feature_names = Some (feature_names self),
      k_training_history = Some (training_history self),
      k_is_trained = Some (is_trained self) \<rparr>"

text \<open>A file of an older format that lacks the key \<open>feature_names\<close> (and the four
  optional keys), one that lacks only the four optional keys, and a trained object.
  Estimators and scalers are numbered.\<close>

definition old_blob :: "(nat, nat, nat) model_data" where
  "old_blob = \<lparr> k_model_flowrate = Some (Some 1), k_model_pressure = Some (Some 2),
                k_model_temperature = Some (Some 3), k_classifier_model = None,
                k_scaler_regression = None, k_scaler_classification = None,
                k_label_encoder = Some (Some [''Pump'', ''Valve'']),
                k_feature_names = None, k_training_history = None,
                k_is_trained = Some True \<rparr>"

definition legacy_blob :: "(nat, nat, nat) model_data" where
  "legacy_blob = \<lparr> k_model_flowrate = Some (Some 1), k_model_pressure = Some (Some 2),
                k_model_temperature = Some (Some 3), k_classifier_model = None,
                k_scaler_regression = None, k_scaler_classification = None,
                k_label_encoder = Some (Some [''Pump'', ''Valve'']),
                k_feature_names = Some [''Type_Encoded''], k_training_history = None,
                k_is_trained = Some True \<rparr>"

definition trained_example :: "(nat, nat, nat) EquipmentMLModel" where
  "trained_example = \<lparr> model_flowrate = Some 1, model_pressure = Some 2, model_temperature = Some 3,
      classifier_model = Some 4, label_encoder = Some [''Pump'', ''Valve''],
      scaler_regression = Some 5, scaler_classification = Some 6,
      feature_names = [''Type_Encoded''], is_trained = True,
      training_history = Map.empty \<rparr>"








section \<open>Properties\<close>

subsection \<open>Persistence\<close>

text \<open>
  Claim C10. For every object whose \<open>is_trained\<close> is false, \<open>save_model\<close> raises the
  \<open>ValueError\<close> "Model not trained yet" and leaves the file system as it was: nothing is
  written to the target path, whatever the path and the file system are.
\<close>

theorem save_model_untrained_writes_nothing:
  "\<not> is_trained self \<Longrightarrow> save_model self fs filepath = (Inl ValueError, fs)"
  by (simp add: save_model_def)

theorem save_model_untrained_witness:
  "\<not> is_trained (init :: (nat, nat, nat) EquipmentMLModel) \<and>
   save_model (init :: (nat, nat, nat) EquipmentMLModel) \<lparr>dirs = {[]}, files = Map.empty\<rparr> [''m.pkl'']
     = (Inl ValueError, \<lparr>dirs = {[]}, files = Map.empty\<rparr>)"
  using save_model_untrained_writes_nothing [of "init :: (nat, nat, nat) EquipmentMLModel"
      "\<lparr>dirs = {[]}, files = Map.empty\<rparr>" "[''m.pkl'']"]
  by (simp add: init_def)


text \<open>
  Claim C5, as stated, fails: \<open>load_model\<close> reads six keys by subscript. A file of an older
  format that lacks \<open>feature_names\<close> exists on disk, and loading it raises \<open>KeyError\<close>; no
  default is substituted and the load as a whole fails.
\<close>

theorem load_model_missing_key_counterexample:
  "path_exists \<lparr>dirs = {[]}, files = [[''m.pkl''] \<mapsto> old_blob]\<rparr> [''m.pkl''] \<and>
   fst (load_model init \<lparr>dirs = {[]}, files = [[''m.pkl''] \<mapsto> old_blob]\<rparr> [''m.pkl''])
     = Inl (KeyError ''feature_names'')"
  by (simp add: load_model_def path_exists_def old_blob_def init_def)

text \<open>
  Claim C5, amended. \<open>load_model\<close> raises \<open>FileNotFoundError\<close> when the path does not exist
  and leaves the object untouched. When the file holds the six keys \<open>model_flowrate\<close>,
  \<open>model_pressure\<close>, \<open>model_temperature\<close>, \<open>label_encoder\<close>, \<open>feature_names\<close> and
  \<open>is_trained\<close>, every attribute is restored, and an absent \<open>classifier_model\<close>,
  \<open>scaler_regression\<close>, \<open>scaler_classification\<close> or \<open>training_history\<close> becomes \<open>None\<close>, an
  unfitted scaler, an unfitted scaler and the empty dictionary. When one of the six keys is
  absent the load raises \<open>KeyError\<close>.
\<close>

theorem load_model_restores:
  "(\<not> path_exists fs p \<longrightarrow> load_model self fs p = (Inl FileNotFoundError, self)) \<and>
   (files fs p = Some md \<and>
    k_model_flowrate md = Some mf \<and> k_model_pressure md = Some mp \<and>
    k_model_temperature md = Some mt \<and> k_label_encoder md = Some le \<and>
    k_feature_names md = Some fn \<and> k_is_trained md = Some t \<longrightarrow>
    load_model self fs p =
      (Inr (), \<lparr> model_flowrate = mf, model_pressure = mp, model_temperature = mt,
                 classifier_model = (case k_classifier_model md of None \<Rightarrow> None | Some c \<Rightarrow> c),
                 label_encoder = le,
                 scaler_regression = (case k_scaler_regression md of None \<Rightarrow> None | Some s \<Rightarrow> s),
                 scaler_classification = (case k_scaler_classification md of None \<Rightarrow> None | Some s \<Rightarrow> s),
                 feature_names = fn, is_trained = t,
                 training_history = (case k_training_history md of None \<Rightarrow> Map.empty | Some h \<Rightarrow> h) \<rparr>)) \<and>
   (files fs p = Some md \<and>
    (k_model_flowrate md = None \<or> k_model_pressure md = None \<or> k_model_temperature md = None \<or>
     k_label_encoder md = None \<or> k_feature_names md = None \<or> k_is_trained md = None) \<longrightarrow>
    (\<exists>k. fst (load_model self fs p) = Inl (KeyError k)))"
  by (auto simp add: load_model_def path_exists_def Let_def split: option.splits)

theorem load_model_restores_witness:
  "load_model init \<lparr>dirs = {[]}, files = [[''m.pkl''] \<mapsto> legacy_blob]\<rparr> [''m.pkl'']
     = (Inr (), \<lparr> model_flowrate = Some 1, model_pressure = Some 2, model_temperature = Some 3,
                 classifier_model = None, label_encoder = Some [''Pump'', ''Valve''],
                 scaler_regression = None, scaler_classification = None,
                 feature_names = [''Type_Encoded''], is_trained = True,
                 training_history = Map.empty \<rparr>) \<and>
   load_model (init :: (nat, nat, nat) EquipmentMLModel) \<lparr>dirs = {[]}, files = Map.empty\<rparr> [''m.pkl'']
     = (Inl FileNotFoundError, init) \<and>
   (\<exists>k. fst (load_model init \<lparr>dirs = {[]}, files = [[''m.pkl''] \<mapsto> old_blob]\<rparr> [''m.pkl''])
           = Inl (KeyError k))"
  using load_model_restores [of "\<lparr>dirs = {[]}, files = [[''m.pkl''] \<mapsto> legacy_blob]\<rparr>" "[''m.pkl'']"
          init legacy_blob "Some 1" "Some 2" "Some 3" "Some [''Pump'', ''Valve'']" "[''Type_Encoded'']" True]
        load_model_restores [of "\<lparr>dirs = {[]}, files = Map.empty\<rparr>" "[''m.pkl'']"
          "init :: (nat, nat, nat) EquipmentMLModel"]
        load_model_restores [of "\<lparr>dirs = {[]}, files = [[''m.pkl''] \<mapsto> old_blob]\<rparr>" "[''m.pkl'']"
          init old_blob]
  by (simp add: legacy_blob_def old_blob_def path_exists_def)

text \<open>
  Claim C9, as stated, fails: \<open>save_model\<close> opens the target for writing and creates no
  directory. For a trained object and a path whose parent directory is missing it raises
  \<open>FileNotFoundError\<close> and writes nothing.
\<close>

theorem save_model_missing_parent_counterexample:
  "is_trained trained_example \<and>
   save_model trained_example \<lparr>dirs = {[], [''media'']}, files = Map.empty\<rparr>
      [''media'', ''ml_models'', ''model_user_1.pkl'']
     = (Inl FileNotFoundError, \<lparr>dirs = {[], [''media'']}, files = Map.empty\<rparr>)"
  by (simp add: save_model_def open_wb_dump_def ancestors_of_def trained_example_def upt_rec)

lemma prefixes_of_self: "p \<in> set (prefixes_of p)"
  unfolding prefixes_of_def by (auto intro!: image_eqI [where x = "length p"])

lemma ancestors_of_prefixes: "set (ancestors_of p) \<subseteq> set (prefixes_of p)"
  unfolding prefixes_of_def ancestors_of_def by auto

lemma save_model_ok:
  "is_trained self \<Longrightarrow> filepath \<noteq> [] \<Longrightarrow> butlast filepath \<in> dirs fs \<Longrightarrow> filepath \<notin> dirs fs \<Longrightarrow>
   save_model self fs filepath = (Inr (), fs\<lparr>files := (files fs)(filepath \<mapsto> bundle_of self)\<rparr>)"
  by (simp add: save_model_def open_wb_dump_def bundle_of_def)

lemma save_model_no_parent:
  "is_trained self \<Longrightarrow> filepath \<notin> dirs fs \<Longrightarrow> filepath = [] \<or> butlast filepath \<notin> dirs fs \<Longrightarrow>
   save_model self fs filepath =
     (Inl (if \<exists>q \<in> set (ancestors_of filepath). files fs q \<noteq> None
           then NotADirectoryError else FileNotFoundError), fs)"
  by (auto simp add: save_model_def open_wb_dump_def)

lemma save_model_is_dir:
  "is_trained self \<Longrightarrow> filepath \<in> dirs fs \<Longrightarrow>
   save_model self fs filepath = (Inl IsADirectoryError, fs)"
  by (simp add: save_model_def open_wb_dump_def)

lemma makedirs_ok:
  "\<forall>q \<in> set (prefixes_of p). files fs q = None \<Longrightarrow>
   makedirs_exist_ok fs p = (Inr (), fs\<lparr>dirs := dirs fs \<union> set (prefixes_of p)\<rparr>)"
  unfolding makedirs_exist_ok_def using ancestors_of_prefixes [of p] prefixes_of_self [of p]
  by auto

text \<open>
  Claim C9, amended. For a trained object \<open>save_model\<close> writes the whole bundle (three
  regressors, classifier, both scalers, encoder, feature names, training history, trained
  flag) as one dictionary to the path, provided the parent directory exists and the path
  is not a directory. \<open>save_model\<close> itself creates no directory: whenever the path is not a
  directory and its parent directory is missing, it raises (\<open>NotADirectoryError\<close> when a
  component of the parent path is a regular file, \<open>FileNotFoundError\<close> otherwise) and
  leaves the file system as it was; when the path is a directory it raises
  \<open>IsADirectoryError\<close> and leaves the file system as it was. The missing directories are
  created by the callers, which call \<open>os.makedirs(model_dir, exist_ok=True)\<close> first: when no
  component of \<open>MEDIA_ROOT/ml_models\<close> is a file and the target path is not a directory,
  the caller's sequence creates every missing ancestor and the file then holds the bundle.
\<close>

theorem save_model_writes_bundle:
  "(is_trained self \<and> filepath \<noteq> [] \<and> butlast filepath \<in> dirs fs \<and> filepath \<notin> dirs fs \<longrightarrow>
      save_model self fs filepath = (Inr (), fs\<lparr>files := (files fs)(filepath \<mapsto> bundle_of self)\<rparr>)) \<and>
   (is_trained self \<and> filepath \<notin> dirs fs \<and> (filepath = [] \<or> butlast filepath \<notin> dirs fs) \<longrightarrow>
      save_model self fs filepath =
        (Inl (if \<exists>q \<in> set (ancestors_of filepath). files fs q \<noteq> None
              then NotADirectoryError else FileNotFoundError), fs)) \<and>
   (is_trained self \<and> filepath \<in> dirs fs \<longrightarrow>
      save_model self fs filepath = (Inl IsADirectoryError, fs)) \<and>
   (is_trained self \<and> (\<forall>q \<in> set (prefixes_of (MEDIA_ROOT @ [''ml_models''])). files fs q = None) \<and>
      MEDIA_ROOT @ [''ml_models'', ''model_user_'' @ str_of_nat user_id @ ''.pkl''] \<notin> dirs fs \<longrightarrow>
      (\<exists>fs'. save_user_model self fs MEDIA_ROOT user_id = (Inr (), fs') \<and>
             set (prefixes_of (MEDIA_ROOT @ [''ml_models''])) \<subseteq> dirs fs' \<and>
             files fs' (MEDIA_ROOT @ [''ml_models'', ''model_user_'' @ str_of_nat user_id @ ''.pkl''])
               = Some (bundle_of self)))"
proof (intro conjI impI)
  assume "is_trained self \<and> filepath \<noteq> [] \<and> butlast filepath \<in> dirs fs \<and> filepath \<notin> dirs fs"
  then show "save_model self fs filepath = (Inr (), fs\<lparr>files := (files fs)(filepath \<mapsto> bundle_of self)\<rparr>)"
    using save_model_ok by blast
next
  assume "is_trained self \<and> filepath \<notin> dirs fs \<and> (filepath = [] \<or> butlast filepath \<notin> dirs fs)"
  then show "save_model self fs filepath =
        (Inl (if \<exists>q \<in> set (ancestors_of filepath). files fs q \<noteq> None
              then NotADirectoryError else FileNotFoundError), fs)"
    using save_model_no_parent [of self filepath fs] by blast
next
  assume "is_trained self \<and> filepath \<in> dirs fs"
  then show "save_model self fs filepath = (Inl IsADirectoryError, fs)"
    using save_model_is_dir by blast
next
  define d where "d = MEDIA_ROOT @ [''ml_models'']"
  define n where "n = ''model_user_'' @ str_of_nat user_id @ ''.pkl''"
  define fs1 where "fs1 = fs\<lparr>dirs := dirs fs \<union> set (prefixes_of d)\<rparr>"
  assume a: "is_trained self \<and> (\<forall>q \<in> set (prefixes_of (MEDIA_ROOT @ [''ml_models''])). files fs q = None) \<and>
      MEDIA_ROOT @ [''ml_models'', ''model_user_'' @ str_of_nat user_id @ ''.pkl''] \<notin> dirs fs"
  have f: "MEDIA_ROOT @ [''ml_models'', ''model_user_'' @ str_of_nat user_id @ ''.pkl''] = d @ [n]"
    by (simp add: d_def n_def)
  have mk: "makedirs_exist_ok fs d = (Inr (), fs1)"
    using a makedirs_ok [of d fs] by (simp add: d_def fs1_def)
  have pf: "d @ [n] \<notin> set (prefixes_of d)"
    by (auto simp: prefixes_of_def dest: arg_cong [where f = length])
  have a3: "d @ [n] \<notin> dirs fs"
    using a unfolding f by blast
  have nd: "d @ [n] \<notin> dirs fs1"
    using a3 pf by (simp add: fs1_def)
  have pd: "butlast (d @ [n]) \<in> dirs fs1"
    using prefixes_of_self [of d] by (simp add: fs1_def)
  have sv: "save_model self fs1 (d @ [n]) = (Inr (), fs1\<lparr>files := (files fs1)(d @ [n] \<mapsto> bundle_of self)\<rparr>)"
    using a nd pd by (intro save_model_ok) simp_all
  have su: "save_user_model self fs MEDIA_ROOT user_id
              = (Inr (), fs1\<lparr>files := (files fs1)(d @ [n] \<mapsto> bundle_of self)\<rparr>)"
    unfolding save_user_model_def Let_def using mk sv by (simp add: d_def n_def)
  show "\<exists>fs'. save_user_model self fs MEDIA_ROOT user_id = (Inr (), fs') \<and>
             set (prefixes_of (MEDIA_ROOT @ [''ml_models''])) \<subseteq> dirs fs' \<and>
             files fs' (MEDIA_ROOT @ [''ml_models'', ''model_user_'' @ str_of_nat user_id @ ''.pkl''])
               = Some (bundle_of self)"
    unfolding f su by (rule exI [where x = "fs1\<lparr>files := (files fs1)(d @ [n] \<mapsto> bundle_of self)\<rparr>"])
      (simp add: fs1_def d_def)
qed

theorem save_model_writes_bundle_witness:
  "save_model trained_example \<lparr>dirs = {[]}, files = Map.empty\<rparr> [''m.pkl'']
     = (Inr (), \<lparr>dirs = {[]}, files = [[''m.pkl''] \<mapsto> bundle_of trained_example]\<rparr>) \<and>
   save_model trained_example \<lparr>dirs = {[]}, files = Map.empty\<rparr> [''media'', ''m.pkl'']
     = (Inl FileNotFoundError, \<lparr>dirs = {[]}, files = Map.empty\<rparr>) \<and>
   save_model trained_example \<lparr>dirs = {[]}, files = Map.empty\<rparr> []
     = (Inl IsADirectoryError, \<lparr>dirs = {[]}, files = Map.empty\<rparr>) \<and>
   (\<exists>fs'. save_user_model trained_example \<lparr>dirs = {[]}, files = Map.empty\<rparr> [''media''] 1 = (Inr (), fs') \<and>
          [''media'', ''ml_models''] \<in> dirs fs' \<and>
          files fs' [''media'', ''ml_models'', ''model_user_'' @ str_of_nat 1 @ ''.pkl''] = Some (bundle_of trained_example))"
proof -
  have t: "is_trained trained_example"
    by (simp add: trained_example_def)
  have a: "save_model trained_example \<lparr>dirs = {[]}, files = Map.empty\<rparr> [''m.pkl'']
     = (Inr (), \<lparr>dirs = {[]}, files = [[''m.pkl''] \<mapsto> bundle_of trained_example]\<rparr>)"
    using t save_model_writes_bundle [of trained_example "[''m.pkl'']" "\<lparr>dirs = {[]}, files = Map.empty\<rparr>"
          "[''media'']" 1]
    by simp
  have b: "save_model trained_example \<lparr>dirs = {[]}, files = Map.empty\<rparr> [''media'', ''m.pkl'']
     = (Inl FileNotFoundError, \<lparr>dirs = {[]}, files = Map.empty\<rparr>)"
    using t save_model_writes_bundle [of trained_example "[''media'', ''m.pkl'']"
          "\<lparr>dirs = {[]}, files = Map.empty\<rparr>" "[''media'']" 1]
    by simp
  have c: "save_model trained_example \<lparr>dirs = {[]}, files = Map.empty\<rparr> []
     = (Inl IsADirectoryError, \<lparr>dirs = {[]}, files = Map.empty\<rparr>)"
    using t save_model_writes_bundle [of trained_example "[]" "\<lparr>dirs = {[]}, files = Map.empty\<rparr>"
          "[''media'']" 1]
    by simp
  have p: "set (prefixes_of [''media'', ''ml_models'']) = {[], [''media''], [''media'', ''ml_models'']}"
    by (auto simp add: prefixes_of_def less_Suc_eq)
  have d: "\<exists>fs'. save_user_model trained_example \<lparr>dirs = {[]}, files = Map.empty\<rparr> [''media''] 1 = (Inr (), fs') \<and>
          [''media'', ''ml_models''] \<in> dirs fs' \<and>
          files fs' [''media'', ''ml_models'', ''model_user_'' @ str_of_nat 1 @ ''.pkl''] = Some (bundle_of trained_example)"
    using t p save_model_writes_bundle [of trained_example "[''m.pkl'']" "\<lparr>dirs = {[]}, files = Map.empty\<rparr>"
          "[''media'']" 1]
    by auto
  show ?thesis
    using a b c d by blast
qed

subsection \<open>Cleaning\<close>









end
